theory Spec2Isabelle
  imports Complex_Main "HOL-Library.Multiset" "HOL-Library.Log_Nat"
begin

section \<open>Attention notebook: tensors and the library operations it calls\<close>

text \<open>
  The notebook \<^verbatim>\<open>nlp/attention.ipynb\<close> defines two functions on two-dimensional torch
  tensors, \<^verbatim>\<open>basic_attention\<close> and \<^verbatim>\<open>qkv_attention\<close>. A tensor of shape \<open>(t, d)\<close> is
  modelled as a record that carries its shape next to its rows, so that an empty tensor
  of shape \<open>(0, d)\<close> still knows \<open>d\<close>. Entries are real numbers: arithmetic is exact, the
  rounding, overflow and NaN of torch's float32 are outside this model.

  The tensors of the notebook come from \<^verbatim>\<open>torch.randn\<close> and are floating-point tensors;
  tensors of an integer dtype, on which \<^verbatim>\<open>F.softmax\<close> raises, are not values of the
  model. The two functions are modelled a second time below with float32 arithmetic
  (\<open>basic_attention32\<close>, \<open>qkv_attention32\<close>), for the properties that rounding or
  overflow decide.
\<close>

record tensor =
  nrows :: nat
  ncols :: nat
  elems :: "real list list"

text \<open>Every torch tensor is rectangular: this is the invariant of the type.\<close>

definition wf_tensor :: "tensor \<Rightarrow> bool" where
  "wf_tensor x \<longleftrightarrow>
     length (elems x) = nrows x \<and> list_all (\<lambda>r. length r = ncols x) (elems x)"

text \<open>
  torch raises \<^verbatim>\<open>RuntimeError\<close> when the shapes of a matrix product do not fit and
  \<^verbatim>\<open>IndexError\<close> when an index tensor reaches outside the indexed dimension. The
  notebook defines no error of its own and has no check on the sequence length.
\<close>

datatype error = ShapeMismatch | IndexError

text \<open>\<^verbatim>\<open>x.transpose(-1, -2)\<close> on a two-dimensional tensor.\<close>

definition transpose_t :: "tensor \<Rightarrow> tensor" where
  "transpose_t x =
     \<lparr>nrows = ncols x, ncols = nrows x,
      elems = map (\<lambda>j. map (\<lambda>r. r ! j) (elems x)) [0..<ncols x]\<rparr>"

definition dot :: "real list \<Rightarrow> real list \<Rightarrow> real" where
  "dot u v = sum_list (map2 (*) u v)"

text \<open>
  \<^verbatim>\<open>a.matmul(b)\<close> on two-dimensional tensors: entry \<open>(i, j)\<close> is the dot product of
  row \<open>i\<close> of \<open>a\<close> and column \<open>j\<close> of \<open>b\<close>; the inner dimensions must agree.
\<close>

definition matmul :: "tensor \<Rightarrow> tensor \<Rightarrow> error + tensor" where
  "matmul a b =
     (if ncols a \<noteq> nrows b then Inl ShapeMismatch
      else Inr \<lparr>nrows = nrows a, ncols = ncols b,
                elems = map (\<lambda>r. map (\<lambda>c. dot r c) (elems (transpose_t b))) (elems a)\<rparr>)"

text \<open>
  \<^verbatim>\<open>F.softmax(w, dim = -1)\<close>: each row is exponentiated and divided by the sum of its
  exponentials, the formula of the notebook's first markdown cell.
\<close>

definition softmax_row :: "real list \<Rightarrow> real list" where
  "softmax_row r = map (\<lambda>s. exp s / sum_list (map exp r)) r"

definition softmax_t :: "tensor \<Rightarrow> tensor" where
  "softmax_t w = w\<lparr>elems := map softmax_row (elems w)\<rparr>"

text \<open>
  \<^verbatim>\<open>x[perm]\<close> with \<^verbatim>\<open>perm\<close> a LongTensor: row \<open>i\<close> of the result is row \<open>perm[i]\<close> of
  \<open>x\<close>; a negative index counts from the end, an index outside \<open>[-t, t)\<close> raises.
\<close>

definition wrap_index :: "nat \<Rightarrow> int \<Rightarrow> nat" where
  "wrap_index n i = nat (if i < 0 then i + int n else i)"


section \<open>The two functions of the notebook\<close>

text \<open>
  \<^verbatim>\<open>
  def basic_attention(x):
      w = x.matmul(x.transpose(-1, -2))
      normalized_w = F.softmax(w, dim = -1)
      y = torch.matmul(normalized_w, x)
      return y
  \<close>
  The two intermediate values have names of their own, since properties are stated
  about them.
\<close>

definition basic_scores :: "tensor \<Rightarrow> error + tensor" where
  "basic_scores x = matmul x (transpose_t x)"

definition basic_weights :: "tensor \<Rightarrow> error + tensor" where
  "basic_weights x =
     (case basic_scores x of Inl e \<Rightarrow> Inl e | Inr w \<Rightarrow> Inr (softmax_t w))"

definition basic_attention :: "tensor \<Rightarrow> error + tensor" where
  "basic_attention x =
     (case basic_weights x of Inl e \<Rightarrow> Inl e | Inr normalized_w \<Rightarrow> matmul normalized_w x)"

text \<open>
  \<^verbatim>\<open>
  def qkv_attention(x):
      d = x.size(-1)
      q = x.matmul(wq)
      k = x.matmul(wk)
      v = x.matmul(wv)
      w = q.matmul(k.transpose(-1, -2))
      y = w.matmul(v)
      return y
  \<close>
  The module-level tensors \<^verbatim>\<open>wq\<close>, \<^verbatim>\<open>wk\<close>, \<^verbatim>\<open>wv\<close> are parameters of the model. The
  local \<^verbatim>\<open>d\<close> is read and never used. The products are evaluated in the order of
  the source, the first one that does not fit raises.
\<close>

definition qkv_weights :: "tensor \<Rightarrow> tensor \<Rightarrow> tensor \<Rightarrow> error + tensor" where
  "qkv_weights wq wk x =
     (let d = ncols x in
      case matmul x wq of Inl e \<Rightarrow> Inl e | Inr q \<Rightarrow>
      (case matmul x wk of Inl e \<Rightarrow> Inl e | Inr k \<Rightarrow>
         matmul q (transpose_t k)))"

definition qkv_attention :: "tensor \<Rightarrow> tensor \<Rightarrow> tensor \<Rightarrow> tensor \<Rightarrow> error + tensor" where
  "qkv_attention wq wk wv x =
     (let d = ncols x in
      case matmul x wq of Inl e \<Rightarrow> Inl e | Inr q \<Rightarrow>
      (case matmul x wk of Inl e \<Rightarrow> Inl e | Inr k \<Rightarrow>
      (case matmul x wv of Inl e \<Rightarrow> Inl e | Inr v \<Rightarrow>
      (case matmul q (transpose_t k) of Inl e \<Rightarrow> Inl e | Inr w \<Rightarrow>
         matmul w v))))"

section \<open>Operations used to state the properties\<close>

text \<open>The identity matrix of size \<open>n\<close> and the multiple \<open>c \<cdot> x\<close> of a tensor.\<close>

definition eye :: "nat \<Rightarrow> tensor" where
  "eye n =
     \<lparr>nrows = n, ncols = n,
      elems = map (\<lambda>i. map (\<lambda>j. if i = j then 1 else 0) [0..<n]) [0..<n]\<rparr>"

definition scale_t :: "real \<Rightarrow> tensor \<Rightarrow> tensor" where
  "scale_t c x = x\<lparr>elems := map (map ((*) c)) (elems x)\<rparr>"

text \<open>Entry \<open>(i, j)\<close> of a tensor, and the tensor of shape \<open>(t, d)\<close> with given entries.\<close>

definition entry :: "tensor \<Rightarrow> nat \<Rightarrow> nat \<Rightarrow> real" where
  "entry x i j = elems x ! i ! j"

definition of_fun :: "nat \<Rightarrow> nat \<Rightarrow> (nat \<Rightarrow> nat \<Rightarrow> real) \<Rightarrow> tensor" where
  "of_fun t d f = \<lparr>nrows = t, ncols = d, elems = map (\<lambda>i. map (\<lambda>j. f i j) [0..<d]) [0..<t]\<rparr>"

text \<open>A tensor of shape \<open>(t, d)\<close>.\<close>

definition has_shape :: "nat \<Rightarrow> nat \<Rightarrow> tensor \<Rightarrow> bool" where
  "has_shape t d x \<longleftrightarrow> wf_tensor x \<and> nrows x = t \<and> ncols x = d"

text \<open>Two tensors of one shape whose entries differ by at most \<open>eps\<close>.\<close>

definition within_tol :: "real \<Rightarrow> tensor \<Rightarrow> tensor \<Rightarrow> bool" where
  "within_tol eps a b \<longleftrightarrow>
     nrows a = nrows b \<and> ncols a = ncols b \<and>
     list_all2 (list_all2 (\<lambda>u v. \<bar>u - v\<bar> \<le> eps)) (elems a) (elems b)"


subsection \<open>The attention of the specification, entry by entry\<close>

text \<open>
  Basic attention as the specification words it: the score \<open>S[i][j]\<close> is the dot product
  of the rows \<open>x\<^sub>i\<close> and \<open>x\<^sub>j\<close>, the weight \<open>Wn[i][j]\<close> is the softmax of row \<open>i\<close> of \<open>S\<close> at
  \<open>j\<close>, and \<open>Y[i][c]\<close> is the sum over \<open>j\<close> of \<open>Wn[i][j] \<cdot> X[j][c]\<close>.
\<close>

definition spec_score :: "tensor \<Rightarrow> nat \<Rightarrow> nat \<Rightarrow> real" where
  "spec_score x i j = (\<Sum>k<ncols x. entry x i k * entry x j k)"

definition spec_weight :: "tensor \<Rightarrow> nat \<Rightarrow> nat \<Rightarrow> real" where
  "spec_weight x i j = exp (spec_score x i j) / (\<Sum>l<nrows x. exp (spec_score x i l))"

definition spec_basic_attention :: "tensor \<Rightarrow> tensor" where
  "spec_basic_attention x =
     of_fun (nrows x) (ncols x) (\<lambda>i c. \<Sum>j<nrows x. spec_weight x i j * entry x j c)"

text \<open>
  Query, key and value attention as the specification words it: the three projections,
  the raw score \<open>Q \<cdot> K\<^sup>T\<close>, the division by \<open>sqrt d\<close>, the row-wise softmax, and the
  product with \<open>V\<close>.
\<close>

definition spec_qkv_attention :: "tensor \<Rightarrow> tensor \<Rightarrow> tensor \<Rightarrow> tensor \<Rightarrow> error + tensor" where
  "spec_qkv_attention wq wk wv x =
     (case matmul x wq of Inl e \<Rightarrow> Inl e | Inr q \<Rightarrow>
     (case matmul x wk of Inl e \<Rightarrow> Inl e | Inr k \<Rightarrow>
     (case matmul x wv of Inl e \<Rightarrow> Inl e | Inr v \<Rightarrow>
     (case matmul q (transpose_t k) of Inl e \<Rightarrow> Inl e | Inr s \<Rightarrow>
        matmul (softmax_t (scale_t (1 / sqrt (real (ncols x))) s)) v))))"

text \<open>The entries of what \<^verbatim>\<open>qkv_attention\<close> computes, used in the proofs below.\<close>

definition proj :: "tensor \<Rightarrow> tensor \<Rightarrow> nat \<Rightarrow> nat \<Rightarrow> real" where
  "proj x w i m = (\<Sum>l<ncols x. entry x i l * entry w l m)"

definition qkv_score :: "tensor \<Rightarrow> tensor \<Rightarrow> tensor \<Rightarrow> nat \<Rightarrow> nat \<Rightarrow> real" where
  "qkv_score wq wk x i j = (\<Sum>m<ncols wq. proj x wq i m * proj x wk j m)"

definition qkv_out :: "tensor \<Rightarrow> tensor \<Rightarrow> tensor \<Rightarrow> tensor \<Rightarrow> nat \<Rightarrow> nat \<Rightarrow> real" where
  "qkv_out wq wk wv x i c = (\<Sum>j<nrows x. qkv_score wq wk x i j * proj x wv j c)"

section \<open>The same functions in float32 arithmetic\<close>

text \<open>
  A float32 value is a finite number, an infinity or NaN. The two zeros are not
  distinguished, as torch's comparison does not distinguish them. Every operation on
  finite values computes the exact result and rounds it to the nearest float32, ties to
  the even significand (24 bits, exponents from \<open>-149\<close> for the last bit of a subnormal
  number); a result that rounds to \<open>2\<^sup>1\<^sup>2\<^sup>8\<close> or beyond is an infinity.
\<close>

datatype f32 = Fin real | PInf | NInf | NaN

text \<open>\<open>floor_log2 x\<close> is the exponent of the leading bit of \<open>x > 0\<close>.\<close>

definition floor_log2 :: "real \<Rightarrow> int" where
  "floor_log2 x = (if 1 \<le> x then bitlen \<lfloor>x\<rfloor> - 1 else - bitlen (\<lceil>1 / x\<rceil> - 1))"

definition pow2 :: "int \<Rightarrow> real" where
  "pow2 e = (if 0 \<le> e then 2 ^ nat e else 1 / 2 ^ nat (- e))"

definition round_even :: "real \<Rightarrow> int" where
  "round_even q =
     (let f = \<lfloor>q\<rfloor>; r = q - of_int f
      in if r < 1 / 2 then f else if 1 / 2 < r then f + 1 else if even f then f else f + 1)"

definition round32 :: "real \<Rightarrow> f32" where
  "round32 x =
     (if x = 0 then Fin 0
      else let e = max (floor_log2 \<bar>x\<bar> - 23) (- 149);
               y = of_int (round_even (x / pow2 e)) * pow2 e
           in if 2 ^ 128 \<le> \<bar>y\<bar> then (if 0 < x then PInf else NInf) else Fin y)"

text \<open>
  The arithmetic of IEEE 754 on these values: NaN is absorbing, \<open>inf - inf\<close>,
  \<open>0 \<cdot> inf\<close>, \<open>0 / 0\<close> and \<open>inf / inf\<close> are NaN. The exponential is taken as correctly
  rounded; the theorems below use it at \<open>0\<close> and at NaN only.
\<close>

fun neg32 :: "f32 \<Rightarrow> f32" where
  "neg32 (Fin a) = Fin (- a)"
| "neg32 PInf = NInf"
| "neg32 NInf = PInf"
| "neg32 NaN = NaN"

fun add32 :: "f32 \<Rightarrow> f32 \<Rightarrow> f32" where
  "add32 (Fin a) (Fin b) = round32 (a + b)"
| "add32 NaN _ = NaN"
| "add32 _ NaN = NaN"
| "add32 PInf NInf = NaN"
| "add32 NInf PInf = NaN"
| "add32 PInf _ = PInf"
| "add32 _ PInf = PInf"
| "add32 NInf _ = NInf"
| "add32 _ NInf = NInf"

definition sub32 :: "f32 \<Rightarrow> f32 \<Rightarrow> f32" where
  "sub32 a b = add32 a (neg32 b)"

fun mul32 :: "f32 \<Rightarrow> f32 \<Rightarrow> f32" where
  "mul32 (Fin a) (Fin b) = round32 (a * b)"
| "mul32 NaN _ = NaN"
| "mul32 _ NaN = NaN"
| "mul32 (Fin a) PInf = (if a = 0 then NaN else if 0 < a then PInf else NInf)"
| "mul32 (Fin a) NInf = (if a = 0 then NaN else if 0 < a then NInf else PInf)"
| "mul32 PInf (Fin b) = (if b = 0 then NaN else if 0 < b then PInf else NInf)"
| "mul32 NInf (Fin b) = (if b = 0 then NaN else if 0 < b then NInf else PInf)"
| "mul32 PInf PInf = PInf"
| "mul32 PInf NInf = NInf"
| "mul32 NInf PInf = NInf"
| "mul32 NInf NInf = PInf"

fun div32 :: "f32 \<Rightarrow> f32 \<Rightarrow> f32" where
  "div32 (Fin a) (Fin b) =
     (if b = 0 then (if a = 0 then NaN else if 0 < a then PInf else NInf)
      else round32 (a / b))"
| "div32 NaN _ = NaN"
| "div32 _ NaN = NaN"
| "div32 (Fin a) _ = Fin 0"
| "div32 PInf (Fin b) = (if 0 \<le> b then PInf else NInf)"
| "div32 NInf (Fin b) = (if 0 \<le> b then NInf else PInf)"
| "div32 _ _ = NaN"

fun exp32 :: "f32 \<Rightarrow> f32" where
  "exp32 (Fin a) = round32 (exp a)"
| "exp32 PInf = PInf"
| "exp32 NInf = Fin 0"
| "exp32 NaN = NaN"

fun max32 :: "f32 \<Rightarrow> f32 \<Rightarrow> f32" where
  "max32 (Fin a) (Fin b) = Fin (max a b)"
| "max32 NaN _ = NaN"
| "max32 _ NaN = NaN"
| "max32 PInf _ = PInf"
| "max32 _ PInf = PInf"
| "max32 NInf b = b"
| "max32 a NInf = a"

text \<open>
  Tensors of float32 values and the library operations on them. A dot product
  accumulates its products from left to right, starting from zero, each product and
  each sum rounded. The softmax subtracts the maximum of the row before it
  exponentiates, as torch's does, so that a finite score never overflows in it.
\<close>

record tensor32 =
  nrows32 :: nat
  ncols32 :: nat
  elems32 :: "f32 list list"

definition transpose32 :: "tensor32 \<Rightarrow> tensor32" where
  "transpose32 x =
     \<lparr>nrows32 = ncols32 x, ncols32 = nrows32 x,
      elems32 = map (\<lambda>j. map (\<lambda>r. r ! j) (elems32 x)) [0..<ncols32 x]\<rparr>"

definition dot32 :: "f32 list \<Rightarrow> f32 list \<Rightarrow> f32" where
  "dot32 u v = foldl (\<lambda>acc (a, b). add32 acc (mul32 a b)) (Fin 0) (zip u v)"

definition matmul32 :: "tensor32 \<Rightarrow> tensor32 \<Rightarrow> error + tensor32" where
  "matmul32 a b =
     (if ncols32 a \<noteq> nrows32 b then Inl ShapeMismatch
      else Inr \<lparr>nrows32 = nrows32 a, ncols32 = ncols32 b,
                elems32 = map (\<lambda>r. map (\<lambda>c. dot32 r c) (elems32 (transpose32 b))) (elems32 a)\<rparr>)"

definition softmax32_row :: "f32 list \<Rightarrow> f32 list" where
  "softmax32_row r =
     (case r of [] \<Rightarrow> []
      | s # ss \<Rightarrow>
          let m = foldl max32 s ss;
              es = map (\<lambda>v. exp32 (sub32 v m)) r;
              z = foldl add32 (Fin 0) es
          in map (\<lambda>e. div32 e z) es)"

definition softmax32 :: "tensor32 \<Rightarrow> tensor32" where
  "softmax32 w = w\<lparr>elems32 := map softmax32_row (elems32 w)\<rparr>"

definition index_rows32 :: "tensor32 \<Rightarrow> int list \<Rightarrow> error + tensor32" where
  "index_rows32 x perm =
     (if list_all (\<lambda>i. - int (nrows32 x) \<le> i \<and> i < int (nrows32 x)) perm
      then Inr \<lparr>nrows32 = length perm, ncols32 = ncols32 x,
                elems32 = map (\<lambda>i. elems32 x ! wrap_index (nrows32 x) i) perm\<rparr>
      else Inl IndexError)"

definition scale32 :: "f32 \<Rightarrow> tensor32 \<Rightarrow> tensor32" where
  "scale32 c x = x\<lparr>elems32 := map (map (mul32 c)) (elems32 x)\<rparr>"

text \<open>The two functions of the notebook, line by line as above.\<close>

definition basic_scores32 :: "tensor32 \<Rightarrow> error + tensor32" where
  "basic_scores32 x = matmul32 x (transpose32 x)"

definition basic_attention32 :: "tensor32 \<Rightarrow> error + tensor32" where
  "basic_attention32 x =
     (case basic_scores32 x of Inl e \<Rightarrow> Inl e | Inr w \<Rightarrow>
        (let normalized_w = softmax32 w in matmul32 normalized_w x))"


text \<open>
  The values a float32 tensor holds (a finite entry is a number that rounding leaves
  unchanged), tensors without infinity or NaN, and rectangular float32 tensors.
\<close>

definition is_f32 :: "f32 \<Rightarrow> bool" where
  "is_f32 v = (case v of Fin r \<Rightarrow> round32 r = Fin r | _ \<Rightarrow> True)"

definition is_finite32 :: "f32 \<Rightarrow> bool" where
  "is_finite32 v = (case v of Fin r \<Rightarrow> True | _ \<Rightarrow> False)"

definition all_finite32 :: "tensor32 \<Rightarrow> bool" where
  "all_finite32 x \<longleftrightarrow> list_all (list_all is_finite32) (elems32 x)"

definition wf_tensor32 :: "tensor32 \<Rightarrow> bool" where
  "wf_tensor32 x \<longleftrightarrow>
     length (elems32 x) = nrows32 x
     \<and> list_all (\<lambda>r. length r = ncols32 x \<and> list_all is_f32 r) (elems32 x)"

section \<open>Entries of the library operations\<close>

lemma wf_tensorI:
  assumes "length (elems x) = nrows x"
    and "\<And>i. i < nrows x \<Longrightarrow> length (elems x ! i) = ncols x"
  shows "wf_tensor x"
  using assms unfolding wf_tensor_def list_all_length by simp

lemma wf_tensor_length: "wf_tensor x \<Longrightarrow> length (elems x) = nrows x"
  by (simp add: wf_tensor_def)

lemma wf_tensor_row: "wf_tensor x \<Longrightarrow> i < nrows x \<Longrightarrow> length (elems x ! i) = ncols x"
  unfolding wf_tensor_def list_all_length by simp

lemma nrows_of_fun [simp]: "nrows (of_fun t d f) = t"
  by (simp add: of_fun_def)

lemma ncols_of_fun [simp]: "ncols (of_fun t d f) = d"
  by (simp add: of_fun_def)

lemma wf_of_fun [simp]: "wf_tensor (of_fun t d f)"
  by (rule wf_tensorI) (simp_all add: of_fun_def)

lemma entry_of_fun [simp]: "i < t \<Longrightarrow> j < d \<Longrightarrow> entry (of_fun t d f) i j = f i j"
  by (simp add: of_fun_def entry_def)

lemma of_fun_cong:
  assumes "\<And>i j. i < t \<Longrightarrow> j < d \<Longrightarrow> f i j = g i j"
  shows "of_fun t d f = of_fun t d g"
  using assms by (simp add: of_fun_def)

text \<open>A rectangular tensor is determined by its shape and its entries.\<close>

lemma of_fun_entry:
  assumes "wf_tensor x"
  shows "of_fun (nrows x) (ncols x) (entry x) = x"
proof -
  have "map (\<lambda>i. map (\<lambda>j. elems x ! i ! j) [0..<ncols x]) [0..<nrows x] = elems x"
  proof (rule nth_equalityI)
    show "length (map (\<lambda>i. map (\<lambda>j. elems x ! i ! j) [0..<ncols x]) [0..<nrows x])
        = length (elems x)"
      using assms by (simp add: wf_tensor_length)
  next
    fix i
    assume "i < length (map (\<lambda>i. map (\<lambda>j. elems x ! i ! j) [0..<ncols x]) [0..<nrows x])"
    then have i: "i < nrows x" by simp
    have "map (\<lambda>j. elems x ! i ! j) [0..<length (elems x ! i)] = elems x ! i"
      by (rule map_nth)
    then show "map (\<lambda>i. map (\<lambda>j. elems x ! i ! j) [0..<ncols x]) [0..<nrows x] ! i
        = elems x ! i"
      using i wf_tensor_row [OF assms i] by simp
  qed
  then show ?thesis by (simp add: of_fun_def entry_def)
qed

lemma tensor_eq_of_fun:
  assumes "wf_tensor x" and "nrows x = t" and "ncols x = d"
    and "\<And>i j. i < t \<Longrightarrow> j < d \<Longrightarrow> entry x i j = f i j"
  shows "x = of_fun t d f"
proof -
  have "x = of_fun t d (entry x)"
    using of_fun_entry [OF assms(1)] assms(2,3) by simp
  also have "\<dots> = of_fun t d f"
    by (rule of_fun_cong) (rule assms(4))
  finally show ?thesis .
qed

lemma dot_sum:
  assumes "length u = n" and "length v = n"
  shows "dot u v = (\<Sum>k<n. u ! k * v ! k)"
proof -
  have "dot u v = (\<Sum>k = 0..<length (zip u v). map2 (*) u v ! k)"
    unfolding dot_def by (simp add: sum_list_sum_nth)
  also have "\<dots> = (\<Sum>k = 0..<n. u ! k * v ! k)"
    using assms by (intro sum.cong) auto
  finally show ?thesis by (simp add: lessThan_atLeast0)
qed

lemma nrows_transpose_t [simp]: "nrows (transpose_t x) = ncols x"
  by (simp add: transpose_t_def)

lemma ncols_transpose_t [simp]: "ncols (transpose_t x) = nrows x"
  by (simp add: transpose_t_def)

lemma wf_transpose_t: "wf_tensor x \<Longrightarrow> wf_tensor (transpose_t x)"
  by (rule wf_tensorI) (simp_all add: transpose_t_def wf_tensor_length)

lemma entry_transpose_t:
  "wf_tensor x \<Longrightarrow> i < ncols x \<Longrightarrow> j < nrows x \<Longrightarrow> entry (transpose_t x) i j = entry x j i"
  by (simp add: entry_def transpose_t_def wf_tensor_length)

lemma matmul_of_fun:
  assumes a: "wf_tensor a" and b: "wf_tensor b" and ab: "ncols a = nrows b"
  shows "matmul a b
    = Inr (of_fun (nrows a) (ncols b) (\<lambda>i j. \<Sum>k<ncols a. entry a i k * entry b k j))"
proof -
  define c where "c = \<lparr>nrows = nrows a, ncols = ncols b,
    elems = map (\<lambda>r. map (\<lambda>c. dot r c) (elems (transpose_t b))) (elems a)\<rparr>"
  have 1: "matmul a b = Inr c"
    using ab by (simp add: matmul_def c_def)
  have 2: "wf_tensor c"
    using a by (intro wf_tensorI) (simp_all add: c_def wf_tensor_length transpose_t_def)
  have 3: "entry c i j = (\<Sum>k<ncols a. entry a i k * entry b k j)"
    if i: "i < nrows a" and j: "j < ncols b" for i j
  proof -
    have la: "length (elems a ! i) = ncols a"
      using a i by (simp add: wf_tensor_row)
    have lb: "length (elems (transpose_t b) ! j) = ncols a"
      using ab j wf_tensor_row [OF wf_transpose_t [OF b], of j] by simp
    have "entry c i j = dot (elems a ! i) (elems (transpose_t b) ! j)"
      using i j a by (simp add: entry_def c_def wf_tensor_length transpose_t_def)
    also have "\<dots> = (\<Sum>k<ncols a. elems a ! i ! k * elems (transpose_t b) ! j ! k)"
      by (rule dot_sum [OF la lb])
    also have "\<dots> = (\<Sum>k<ncols a. entry a i k * entry b k j)"
    proof (rule sum.cong [OF refl])
      fix k assume "k \<in> {..<ncols a}"
      then have "k < nrows b" using ab by simp
      then have "entry (transpose_t b) j k = entry b k j"
        using entry_transpose_t [OF b j] by simp
      then show "elems a ! i ! k * elems (transpose_t b) ! j ! k = entry a i k * entry b k j"
        by (simp add: entry_def)
    qed
    finally show ?thesis .
  qed
  have "c = of_fun (nrows a) (ncols b) (\<lambda>i j. \<Sum>k<ncols a. entry a i k * entry b k j)"
    by (rule tensor_eq_of_fun [OF 2 _ _ 3]) (simp_all add: c_def)
  with 1 show ?thesis by simp
qed

lemma matmul_shape_error: "ncols a \<noteq> nrows b \<Longrightarrow> matmul a b = Inl ShapeMismatch"
  by (simp add: matmul_def)

lemma softmax_t_of_fun:
  assumes w: "wf_tensor w"
  shows "softmax_t w
    = of_fun (nrows w) (ncols w) (\<lambda>i j. exp (entry w i j) / (\<Sum>l<ncols w. exp (entry w i l)))"
proof (rule tensor_eq_of_fun)
  show "wf_tensor (softmax_t w)"
    using w by (intro wf_tensorI) (simp_all add: softmax_t_def softmax_row_def wf_tensor_length wf_tensor_row)
  show "nrows (softmax_t w) = nrows w" "ncols (softmax_t w) = ncols w"
    by (simp_all add: softmax_t_def)
next
  fix i j assume i: "i < nrows w" and j: "j < ncols w"
  have len: "length (elems w ! i) = ncols w"
    using w i by (rule wf_tensor_row)
  have "sum_list (map exp (elems w ! i)) = (\<Sum>l<ncols w. exp (elems w ! i ! l))"
    using len by (simp add: sum_list_sum_nth lessThan_atLeast0)
  then show "entry (softmax_t w) i j = exp (entry w i j) / (\<Sum>l<ncols w. exp (entry w i l))"
    using i j w len by (simp add: entry_def softmax_t_def softmax_row_def wf_tensor_length)
qed

text \<open>
  Subtracting one number from every score of a row, as a softmax that guards against
  overflow does with the row's maximum, leaves the result unchanged over the reals.
\<close>

lemma softmax_row_shift: "softmax_row (map (\<lambda>s. s - m) r) = softmax_row r"
proof -
  have "sum_list (map (\<lambda>u. exp (u - m)) r) = sum_list (map exp r) * exp (- m)"
    by (simp add: exp_diff divide_inverse exp_minus sum_list_mult_const)
  then show ?thesis
    by (simp add: softmax_row_def comp_def exp_diff exp_minus divide_inverse)
qed


lemma transpose_t_of_fun:
  assumes x: "wf_tensor x"
  shows "transpose_t x = of_fun (ncols x) (nrows x) (\<lambda>i j. entry x j i)"
  by (rule tensor_eq_of_fun [OF wf_transpose_t [OF x]])
     (simp_all add: entry_transpose_t [OF x])

section \<open>What the two functions compute\<close>

lemma basic_scores_of_fun:
  assumes x: "wf_tensor x"
  shows "basic_scores x = Inr (of_fun (nrows x) (nrows x) (spec_score x))"
proof -
  have "basic_scores x = Inr (of_fun (nrows x) (nrows x)
      (\<lambda>i j. \<Sum>k<ncols x. entry x i k * entry (transpose_t x) k j))"
    unfolding basic_scores_def
    using matmul_of_fun [OF x wf_transpose_t [OF x]] by simp
  also have "of_fun (nrows x) (nrows x)
      (\<lambda>i j. \<Sum>k<ncols x. entry x i k * entry (transpose_t x) k j)
    = of_fun (nrows x) (nrows x) (spec_score x)"
    unfolding spec_score_def
    by (intro of_fun_cong sum.cong refl) (simp add: entry_transpose_t [OF x])
  finally show ?thesis .
qed

lemma basic_weights_of_fun:
  assumes x: "wf_tensor x"
  shows "basic_weights x = Inr (of_fun (nrows x) (nrows x) (spec_weight x))"
proof -
  have "softmax_t (of_fun (nrows x) (nrows x) (spec_score x))
    = of_fun (nrows x) (nrows x) (spec_weight x)"
    unfolding spec_weight_def
    by (simp add: softmax_t_of_fun) (rule of_fun_cong, simp)
  then show ?thesis
    by (simp add: basic_weights_def basic_scores_of_fun [OF x])
qed

lemma basic_attention_of_fun:
  assumes x: "wf_tensor x"
  shows "basic_attention x = Inr (spec_basic_attention x)"
proof -
  have "matmul (of_fun (nrows x) (nrows x) (spec_weight x)) x
    = Inr (of_fun (nrows x) (ncols x)
        (\<lambda>i c. \<Sum>j<nrows x. entry (of_fun (nrows x) (nrows x) (spec_weight x)) i j * entry x j c))"
    using matmul_of_fun [OF wf_of_fun x, of "nrows x" "nrows x" "spec_weight x"] by simp
  also have "of_fun (nrows x) (ncols x)
        (\<lambda>i c. \<Sum>j<nrows x. entry (of_fun (nrows x) (nrows x) (spec_weight x)) i j * entry x j c)
    = spec_basic_attention x"
    unfolding spec_basic_attention_def
    by (intro of_fun_cong sum.cong refl) simp
  finally show ?thesis
    by (simp add: basic_attention_def basic_weights_of_fun [OF x])
qed

lemma matmul_proj:
  assumes x: "wf_tensor x" and w: "wf_tensor w" and xw: "ncols x = nrows w"
  shows "matmul x w = Inr (of_fun (nrows x) (ncols w) (proj x w))"
  unfolding proj_def by (rule matmul_of_fun [OF x w xw])

lemma transpose_t_of_fun_of_fun:
  "transpose_t (of_fun t d f) = of_fun d t (\<lambda>i j. f j i)"
  by (simp add: transpose_t_of_fun) (rule of_fun_cong, simp)

lemma matmul_of_fun_of_fun:
  "matmul (of_fun t n f) (of_fun n d g) = Inr (of_fun t d (\<lambda>i j. \<Sum>k<n. f i k * g k j))"
  by (simp add: matmul_of_fun) (intro of_fun_cong sum.cong refl, simp)

lemma qkv_weights_of_fun:
  assumes x: "wf_tensor x" and wq: "wf_tensor wq" and wk: "wf_tensor wk"
    and sq: "ncols x = nrows wq" and sk: "ncols x = nrows wk" and qk: "ncols wq = ncols wk"
  shows "qkv_weights wq wk x = Inr (of_fun (nrows x) (nrows x) (qkv_score wq wk x))"
  unfolding qkv_weights_def qkv_score_def
  by (simp add: matmul_proj [OF x wq sq] matmul_proj [OF x wk sk] transpose_t_of_fun_of_fun
      qk [symmetric] matmul_of_fun_of_fun)

lemma qkv_attention_of_fun:
  assumes x: "wf_tensor x" and wq: "wf_tensor wq" and wk: "wf_tensor wk" and wv: "wf_tensor wv"
    and sq: "ncols x = nrows wq" and sk: "ncols x = nrows wk" and sv: "ncols x = nrows wv"
    and qk: "ncols wq = ncols wk"
  shows "qkv_attention wq wk wv x = Inr (of_fun (nrows x) (ncols wv) (qkv_out wq wk wv x))"
  unfolding qkv_attention_def qkv_out_def qkv_score_def
  by (simp add: matmul_proj [OF x wq sq] matmul_proj [OF x wk sk] matmul_proj [OF x wv sv]
      transpose_t_of_fun_of_fun qk [symmetric] matmul_of_fun_of_fun)


section \<open>Permuting the rows\<close>









section \<open>Multiples of the input\<close>




section \<open>Identity weights, a single row, row sums\<close>

lemma exp_one_bounds: "271 / 100 < exp (1::real)" "exp (1::real) < 273 / 100"
proof -
  obtain u :: real where u: "\<bar>u\<bar> \<le> \<bar>1\<bar>"
    and e: "exp 1 = (\<Sum>m<6. (1::real) ^ m / fact m) + exp u / fact 6 * 1 ^ 6"
    using Maclaurin_exp_le [of 1 6] by blast
  have s: "(\<Sum>m<6. (1::real) ^ m / fact m) = 163 / 60"
    by (simp add: eval_nat_numeral)
  have f: "fact 6 = (720::real)"
    by (simp add: eval_nat_numeral)
  have "exp u \<le> exp 1" using u by simp
  then have up: "exp u \<le> 3" using exp_le by linarith
  have lo: "0 < exp u" by simp
  have eq: "exp 1 = 163 / 60 + exp u / 720"
    using e s f by simp
  show "271 / 100 < exp (1::real)" using eq lo by linarith
  show "exp (1::real) < 273 / 100" using eq up by linarith
qed

lemma matmul_eye:
  assumes x: "wf_tensor x" and n: "ncols x = n"
  shows "matmul x (eye n) = Inr x"
proof -
  have eye: "eye n = of_fun n n (\<lambda>i j. if i = j then 1 else 0)"
    by (simp add: eye_def of_fun_def)
  have "matmul x (eye n) = Inr (of_fun (nrows x) n (\<lambda>i j. \<Sum>k<n. entry x i k * entry (eye n) k j))"
    using matmul_of_fun [OF x, of "eye n"] n by (simp add: eye)
  also have "of_fun (nrows x) n (\<lambda>i j. \<Sum>k<n. entry x i k * entry (eye n) k j)
    = of_fun (nrows x) n (entry x)"
  proof (rule of_fun_cong)
    fix i j assume "i < nrows x" and j: "j < n"
    have "(\<Sum>k<n. entry x i k * entry (eye n) k j)
      = (\<Sum>k<n. if k = j then entry x i k else 0)"
      by (rule sum.cong [OF refl]) (simp add: eye j)
    also have "\<dots> = entry x i j" using j by simp
    finally show "(\<Sum>k<n. entry x i k * entry (eye n) k j) = entry x i j" .
  qed
  also have "\<dots> = x" using of_fun_entry [OF x] n by simp
  finally show ?thesis .
qed

lemma qkv_attention_eye:
  assumes x: "wf_tensor x" and n: "ncols x = n"
  shows "qkv_attention (eye n) (eye n) (eye n) x
    = (case matmul x (transpose_t x) of Inl e \<Rightarrow> Inl e | Inr w \<Rightarrow> matmul w x)"
  by (simp add: qkv_attention_def matmul_eye [OF x n])

lemma basic_attention_single_row:
  assumes x: "wf_tensor x" and t: "nrows x = 1"
  shows "basic_attention x = Inr x"
proof -
  have w: "spec_weight x 0 0 = 1"
    by (simp add: spec_weight_def t)
  have "spec_basic_attention x = of_fun 1 (ncols x) (entry x)"
    unfolding spec_basic_attention_def t
    by (rule of_fun_cong) (simp add: w)
  also have "\<dots> = x" using of_fun_entry [OF x] t by simp
  finally show ?thesis by (simp add: basic_attention_of_fun [OF x])
qed

lemma spec_weight_pos: "0 < spec_weight x i j" if "0 < nrows x"
proof -
  have "0 < (\<Sum>l<nrows x. exp (spec_score x i l))"
    using that by (intro sum_pos) auto
  then show ?thesis by (simp add: spec_weight_def)
qed

lemma spec_weight_row_sum: "(\<Sum>j<nrows x. spec_weight x i j) = 1" if "0 < nrows x"
proof -
  have "0 < (\<Sum>l<nrows x. exp (spec_score x i l))"
    using that by (intro sum_pos) auto
  then show ?thesis
    by (simp add: spec_weight_def sum_divide_distrib [symmetric])
qed

lemma basic_weights_row_stochastic:
  assumes x: "wf_tensor x" and i: "i < nrows x"
  shows "\<exists>w. basic_weights x = Inr w \<and> sum_list (elems w ! i) = 1 \<and> list_all (\<lambda>v. 0 \<le> v) (elems w ! i)"
proof -
  let ?w = "of_fun (nrows x) (nrows x) (spec_weight x)"
  have pos: "0 < nrows x" using i by simp
  have row: "elems ?w ! i = map (spec_weight x i) [0..<nrows x]"
    using i by (simp add: of_fun_def)
  have "sum_list (elems ?w ! i) = (\<Sum>j<nrows x. spec_weight x i j)"
    unfolding row by (simp add: sum_list_sum_nth lessThan_atLeast0)
  then have 1: "sum_list (elems ?w ! i) = 1"
    using spec_weight_row_sum [OF pos] by simp
  have 2: "list_all (\<lambda>v. 0 \<le> v) (elems ?w ! i)"
    unfolding row list_all_iff using spec_weight_pos [OF pos, of i] by (auto intro: less_imp_le)
  show ?thesis using basic_weights_of_fun [OF x] 1 2 by simp
qed

section \<open>When the functions raise\<close>

lemma qkv_attention_via_weights:
  "qkv_attention wq wk wv x =
     (case qkv_weights wq wk x of Inl e \<Rightarrow> Inl e | Inr w \<Rightarrow>
      (case matmul x wv of Inl e \<Rightarrow> Inl e | Inr v \<Rightarrow> matmul w v))"
  by (auto simp: qkv_attention_def qkv_weights_def matmul_def split: sum.splits)

lemma basic_attention_no_error: "\<exists>y. basic_attention x = Inr y"
  by (simp add: basic_attention_def basic_weights_def basic_scores_def matmul_def softmax_t_def)


section \<open>The identity input\<close>

lemma softmax_unit_bounds:
  "\<bar>exp 1 / (exp 1 + 1) - 731 / 1000\<bar> \<le> (1 / 1000 :: real)"
  "\<bar>1 / (exp 1 + 1) - 269 / 1000\<bar> \<le> (1 / 1000 :: real)"
proof -
  define e :: real where "e = exp 1"
  have lo: "271 / 100 < e" and hi: "e < 273 / 100"
    using exp_one_bounds by (simp_all add: e_def)
  have pos: "0 < e + 1" using lo by linarith
  have a: "730 / 1000 \<le> e / (e + 1)" using pos lo by (simp add: pos_le_divide_eq)
  have b: "e / (e + 1) \<le> 732 / 1000" using pos hi by (simp add: pos_divide_le_eq)
  have c: "268 / 1000 \<le> 1 / (e + 1)" using pos hi by (simp add: pos_le_divide_eq)
  have d: "1 / (e + 1) \<le> 270 / 1000" using pos lo by (simp add: pos_divide_le_eq)
  show "\<bar>exp 1 / (exp 1 + 1) - 731 / 1000\<bar> \<le> (1 / 1000 :: real)"
    using a b unfolding e_def [symmetric] by linarith
  show "\<bar>1 / (exp 1 + 1) - 269 / 1000\<bar> \<le> (1 / 1000 :: real)"
    using c d unfolding e_def [symmetric] by linarith
qed

lemma basic_weights_eye2:
  "basic_weights \<lparr>nrows = 2, ncols = 2, elems = [[1, 0], [0, 1]]\<rparr>
   = Inr \<lparr>nrows = 2, ncols = 2,
          elems = [[exp 1 / (exp 1 + 1), 1 / (exp 1 + 1)], [1 / (exp 1 + 1), exp 1 / (exp 1 + 1)]]\<rparr>"
  by (simp add: basic_weights_def basic_scores_def matmul_def transpose_t_def dot_def
      softmax_t_def softmax_row_def upt_rec add.commute)

lemma basic_attention_eye2:
  "basic_attention \<lparr>nrows = 2, ncols = 2, elems = [[1, 0], [0, 1]]\<rparr>
   = Inr \<lparr>nrows = 2, ncols = 2,
          elems = [[exp 1 / (exp 1 + 1), 1 / (exp 1 + 1)], [1 / (exp 1 + 1), exp 1 / (exp 1 + 1)]]\<rparr>"
  by (simp add: basic_attention_def basic_weights_eye2 matmul_def transpose_t_def dot_def upt_rec)

section \<open>Float32: evaluation and the single row\<close>

lemmas r32 = round32_def floor_log2_def pow2_def round_even_def compute_bitlen Let_def

lemmas ops32 = matmul32_def transpose32_def dot32_def softmax32_def softmax32_row_def
  scale32_def index_rows32_def wrap_index_def sub32_def basic_scores32_def

text \<open>The exponent that \<open>round32\<close> works with is the one of the leading bit.\<close>

lemma floor_log2_bounds:
  assumes "0 < x"
  shows "pow2 (floor_log2 x) \<le> x \<and> x < pow2 (floor_log2 x + 1)"
proof (cases "1 \<le> x")
  case True
  define m where "m = \<lfloor>x\<rfloor>"
  have m: "0 < m" using True by (simp add: m_def)
  have b: "2 ^ nat (bitlen m - 1) \<le> m" "m < 2 ^ nat (bitlen m)"
    using bitlen_bounds [OF m] by simp_all
  have b1: "1 \<le> bitlen m"
    using m bitlen_eq_zero_iff [of m] bitlen_nonneg [of m] by linarith
  have "real_of_int (2 ^ nat (bitlen m - 1)) \<le> x"
    using b(1) unfolding m_def by (simp only: le_floor_iff)
  then have lo: "2 ^ nat (bitlen m - 1) \<le> x" by simp
  have "x < real_of_int (2 ^ nat (bitlen m))"
    using b(2) unfolding m_def by (simp only: floor_less_iff)
  then have hi: "x < 2 ^ nat (bitlen m)" by simp
  show ?thesis
    using lo hi b1 True by (simp add: floor_log2_def pow2_def m_def [symmetric])
next
  case False
  define y where "y = 1 / x"
  define m where "m = \<lceil>y\<rceil> - 1"
  have y: "1 < y" using False assms by (simp add: y_def)
  then have "1 < \<lceil>y\<rceil>" by (simp add: less_ceiling_iff)
  then have m: "0 < m" by (simp add: m_def)
  have b: "2 ^ nat (bitlen m - 1) \<le> m" "m < 2 ^ nat (bitlen m)"
    using bitlen_bounds [OF m] by simp_all
  have b1: "1 \<le> bitlen m"
    using m bitlen_eq_zero_iff [of m] bitlen_nonneg [of m] by linarith
  have "2 ^ nat (bitlen m - 1) < \<lceil>y\<rceil>" using b(1) by (simp add: m_def)
  then have "real_of_int (2 ^ nat (bitlen m - 1)) < y" by (simp only: less_ceiling_iff)
  then have lo: "2 ^ nat (bitlen m - 1) < y" by simp
  have "\<lceil>y\<rceil> \<le> 2 ^ nat (bitlen m)" using b(2) by (simp add: m_def)
  then have "y \<le> real_of_int (2 ^ nat (bitlen m))" by (simp only: ceiling_le_iff)
  then have hi: "y \<le> 2 ^ nat (bitlen m)" by simp
  have x: "x = 1 / y" using assms by (simp add: y_def)
  have ypos: "0 < y" using y by simp
  have A: "1 / 2 ^ nat (bitlen m) \<le> x"
    unfolding x using hi ypos by (simp add: frac_le)
  have B: "x < 1 / 2 ^ nat (bitlen m - 1)"
    unfolding x using lo ypos by (simp add: frac_less2)
  have e: "floor_log2 x = - bitlen m"
    using False by (simp add: floor_log2_def m_def y_def)
  have p1: "pow2 (- bitlen m) = 1 / 2 ^ nat (bitlen m)"
    using b1 by (simp add: pow2_def)
  have p2: "pow2 (- bitlen m + 1) = 1 / 2 ^ nat (bitlen m - 1)"
  proof (cases "bitlen m = 1")
    case True then show ?thesis by (simp add: pow2_def)
  next
    case False
    then have "1 < bitlen m" using b1 by simp
    moreover have "nat (- (- bitlen m + 1)) = nat (bitlen m - 1)" by simp
    ultimately show ?thesis by (simp add: pow2_def)
  qed
  have "pow2 (floor_log2 x) \<le> x" using A by (simp only: e p1)
  moreover have "x < pow2 (floor_log2 x + 1)" using B by (simp only: e p2)
  ultimately show ?thesis by simp
qed

lemma round32_0 [simp]: "round32 0 = Fin 0"
  by (simp add: round32_def)

lemma round32_1 [simp]: "round32 1 = Fin 1"
  by (simp add: r32)

lemma nrows32_transpose32 [simp]: "nrows32 (transpose32 x) = ncols32 x"
  by (simp add: transpose32_def)

lemma ncols32_transpose32 [simp]: "ncols32 (transpose32 x) = nrows32 x"
  by (simp add: transpose32_def)

lemma dot32_one:
  assumes "is_f32 v" and "is_finite32 v"
  shows "dot32 [Fin 1] [v] = v"
  using assms by (cases v) (simp_all add: dot32_def is_f32_def is_finite32_def)

lemma softmax32_row_single:
  "softmax32_row [Fin s] = [Fin 1]"
  by (simp add: softmax32_row_def sub32_def)

lemma basic_attention32_single_row_aux:
  assumes wf: "wf_tensor32 x" and t: "nrows32 x = 1" and fin: "all_finite32 x"
    and sc: "basic_scores32 x = Inr w" and wfin: "all_finite32 w"
  shows "basic_attention32 x = Inr x"
proof -
  obtain r where r: "elems32 x = [r]"
    using wf t by (cases "elems32 x") (simp_all add: wf_tensor32_def)
  have len: "length r = ncols32 x" and f32: "list_all is_f32 r"
    using wf r by (simp_all add: wf_tensor32_def)
  have finr: "list_all is_finite32 r"
    using fin r by (simp add: all_finite32_def)
  have nth: "map (\<lambda>j. r ! j) [0..<ncols32 x] = r"
    using map_nth [of r] len by simp
  have tt: "elems32 (transpose32 (transpose32 x)) = [r]"
    using nth by (simp add: transpose32_def r t comp_def)
  have "matmul32 x (transpose32 x) = Inr \<lparr>nrows32 = 1, ncols32 = 1, elems32 = [[dot32 r r]]\<rparr>"
    by (simp add: matmul32_def tt r t)
  then have w: "w = \<lparr>nrows32 = 1, ncols32 = 1, elems32 = [[dot32 r r]]\<rparr>"
    using sc by (simp add: basic_scores32_def)
  obtain s where s: "dot32 r r = Fin s"
    using wfin by (cases "dot32 r r") (simp_all add: w all_finite32_def is_finite32_def)
  have sm: "softmax32 w = \<lparr>nrows32 = 1, ncols32 = 1, elems32 = [[Fin 1]]\<rparr>"
    by (simp add: softmax32_def w s softmax32_row_single)
  have one: "dot32 [Fin 1] [r ! j] = r ! j" if "j < ncols32 x" for j
    using that f32 finr len by (intro dot32_one) (simp_all add: list_all_length)
  have "map (\<lambda>c. dot32 [Fin 1] c) (elems32 (transpose32 x)) = map (\<lambda>j. r ! j) [0..<ncols32 x]"
    by (simp add: transpose32_def r comp_def one)
  then have "matmul32 \<lparr>nrows32 = 1, ncols32 = 1, elems32 = [[Fin 1]]\<rparr> x
    = Inr \<lparr>nrows32 = 1, ncols32 = ncols32 x, elems32 = [r]\<rparr>"
    using nth by (simp add: matmul32_def t)
  also have "\<lparr>nrows32 = 1, ncols32 = ncols32 x, elems32 = [r]\<rparr> = x"
    using r t by simp
  finally show ?thesis
    using sc by (simp add: basic_attention32_def basic_scores32_def sm)
qed

section \<open>The claims\<close>



text \<open>
  Claim C7. For every \<open>X\<close> of shape \<open>(t, d)\<close> and weights of shape \<open>(d, d)\<close>,
  \<^verbatim>\<open>basic_attention\<close> and \<^verbatim>\<open>qkv_attention\<close> each return a tensor of shape \<open>(t, d)\<close>.
\<close>
theorem attention_preserves_shape:
  assumes x: "has_shape t d x"
    and wq: "has_shape d d wq" and wk: "has_shape d d wk" and wv: "has_shape d d wv"
  shows "(\<exists>y. basic_attention x = Inr y \<and> has_shape t d y)
       \<and> (\<exists>y. qkv_attention wq wk wv x = Inr y \<and> has_shape t d y)"
proof
  show "\<exists>y. basic_attention x = Inr y \<and> has_shape t d y"
    using x basic_attention_of_fun [of x]
    by (simp add: has_shape_def spec_basic_attention_def)
  have "qkv_attention wq wk wv x = Inr (of_fun (nrows x) (ncols wv) (qkv_out wq wk wv x))"
    using x wq wk wv by (intro qkv_attention_of_fun) (simp_all add: has_shape_def)
  then show "\<exists>y. qkv_attention wq wk wv x = Inr y \<and> has_shape t d y"
    using x wv by (simp add: has_shape_def)
qed

theorem attention_preserves_shape_witness:
  "has_shape 3 2 \<lparr>nrows = 3, ncols = 2, elems = [[1, 2], [3, 4], [5, 6]]\<rparr>
   \<and> has_shape 2 2 \<lparr>nrows = 2, ncols = 2, elems = [[1, 1], [0, 1]]\<rparr>
   \<and> (\<exists>y. basic_attention \<lparr>nrows = 3, ncols = 2, elems = [[1, 2], [3, 4], [5, 6]]\<rparr> = Inr y
         \<and> has_shape 3 2 y)
   \<and> (\<exists>y. qkv_attention \<lparr>nrows = 2, ncols = 2, elems = [[1, 1], [0, 1]]\<rparr>
           \<lparr>nrows = 2, ncols = 2, elems = [[1, 1], [0, 1]]\<rparr>
           \<lparr>nrows = 2, ncols = 2, elems = [[1, 1], [0, 1]]\<rparr>
           \<lparr>nrows = 3, ncols = 2, elems = [[1, 2], [3, 4], [5, 6]]\<rparr> = Inr y
         \<and> has_shape 3 2 y)"
  using attention_preserves_shape [of 3 2 "\<lparr>nrows = 3, ncols = 2, elems = [[1, 2], [3, 4], [5, 6]]\<rparr>"
    "\<lparr>nrows = 2, ncols = 2, elems = [[1, 1], [0, 1]]\<rparr>"
    "\<lparr>nrows = 2, ncols = 2, elems = [[1, 1], [0, 1]]\<rparr>"
    "\<lparr>nrows = 2, ncols = 2, elems = [[1, 1], [0, 1]]\<rparr>"]
  by (simp add: has_shape_def wf_tensor_def)





text \<open>
  Claim C6. With the identity of size \<open>(2, 2)\<close> for the three weights, \<^verbatim>\<open>qkv_attention\<close>
  returns \<open>(X \<cdot> X\<^sup>T) \<cdot> X\<close> for every \<open>X\<close> of shape \<open>(t, 2)\<close>: the score of
  \<^verbatim>\<open>basic_attention\<close> before its softmax, multiplied with \<open>X\<close>, with no scaling.
\<close>
theorem qkv_attention_identity_weights:
  assumes "has_shape t 2 x"
  shows "\<exists>s y. matmul x (transpose_t x) = Inr s \<and> basic_scores x = Inr s
       \<and> matmul s x = Inr y
       \<and> qkv_attention (eye 2) (eye 2) (eye 2) x = Inr y"
proof -
  have x: "wf_tensor x" and d: "ncols x = 2"
    using assms by (simp_all add: has_shape_def)
  obtain s where s: "matmul x (transpose_t x) = Inr s" "wf_tensor s" "ncols s = nrows x"
    using matmul_of_fun [OF x wf_transpose_t [OF x]] by simp
  obtain y where y: "matmul s x = Inr y"
    using matmul_of_fun [OF s(2) x s(3)] by simp
  show ?thesis
    using qkv_attention_eye [OF x d] s(1) y by (simp add: basic_scores_def)
qed

theorem qkv_attention_identity_weights_witness:
  "has_shape 2 2 \<lparr>nrows = 2, ncols = 2, elems = [[1, 2], [3, 4]]\<rparr>
   \<and> qkv_attention (eye 2) (eye 2) (eye 2) \<lparr>nrows = 2, ncols = 2, elems = [[1, 2], [3, 4]]\<rparr>
     = Inr \<lparr>nrows = 2, ncols = 2, elems = [[38, 54], [86, 122]]\<rparr>"
proof -
  have 1: "has_shape 2 2 \<lparr>nrows = 2, ncols = 2, elems = [[1, 2], [3, 4]]\<rparr>"
    by (simp add: has_shape_def wf_tensor_def)
  have 2: "matmul \<lparr>nrows = 2, ncols = 2, elems = [[1, 2], [3, 4]]\<rparr>
      (transpose_t \<lparr>nrows = 2, ncols = 2, elems = [[1, 2], [3, 4]]\<rparr>)
    = Inr \<lparr>nrows = 2, ncols = 2, elems = [[5, 11], [11, 25]]\<rparr>"
    by (simp add: matmul_def transpose_t_def dot_def upt_rec)
  have 3: "matmul \<lparr>nrows = 2, ncols = 2, elems = [[5, 11], [11, 25]]\<rparr>
      \<lparr>nrows = 2, ncols = 2, elems = [[1, 2], [3, 4]]\<rparr>
    = Inr \<lparr>nrows = 2, ncols = 2, elems = [[38, 54], [86, 122]]\<rparr>"
    by (simp add: matmul_def transpose_t_def dot_def upt_rec)
  show ?thesis
    using qkv_attention_identity_weights [OF 1] 1 2 3 by auto
qed

text \<open>
  Claim C9 as it is stated, for every input of a single row, fails where the score
  overflows: for \<open>X = [[2\<^sup>6\<^sup>5, 0]]\<close> the score \<open>2\<^sup>1\<^sup>3\<^sup>0\<close> is beyond float32 and becomes
  infinity, the softmax of an infinite score is NaN, and \<^verbatim>\<open>basic_attention\<close> returns
  \<open>[[NaN, NaN]]\<close>, not \<open>X\<close>.
\<close>
theorem basic_attention32_overflow:
  "basic_attention32 \<lparr>nrows32 = 1, ncols32 = 2, elems32 = [[Fin (2 ^ 65), Fin 0]]\<rparr>
   = Inr \<lparr>nrows32 = 1, ncols32 = 2, elems32 = [[NaN, NaN]]\<rparr>
   \<and> basic_attention32 \<lparr>nrows32 = 1, ncols32 = 2, elems32 = [[Fin (2 ^ 65), Fin 0]]\<rparr>
   \<noteq> Inr \<lparr>nrows32 = 1, ncols32 = 2, elems32 = [[Fin (2 ^ 65), Fin 0]]\<rparr>
   \<and> wf_tensor32 \<lparr>nrows32 = 1, ncols32 = 2, elems32 = [[Fin (2 ^ 65), Fin 0]]\<rparr>"
  by (simp add: basic_attention32_def ops32 r32 upt_rec wf_tensor32_def is_f32_def)

text \<open>
  Claim C9, amended. For every float32 input of a single row, shape \<open>(1, d)\<close>, with
  finite entries and a finite score (the sum of the squares of the row does not
  overflow), \<^verbatim>\<open>basic_attention\<close> returns the input itself: the one weight is
  \<open>exp (s - s) / exp (s - s) = 1\<close> and \<open>0 + 1 \<cdot> x = x\<close> without rounding.
\<close>
theorem basic_attention32_single_row:
  assumes "wf_tensor32 x" and "nrows32 x = 1" and "all_finite32 x"
    and "basic_scores32 x = Inr w" and "all_finite32 w"
  shows "basic_attention32 x = Inr x"
  using assms by (rule basic_attention32_single_row_aux)

theorem basic_attention32_single_row_witness:
  "wf_tensor32 \<lparr>nrows32 = 1, ncols32 = 3, elems32 = [[Fin 1, Fin (- 2), Fin (1 / 2)]]\<rparr>
   \<and> all_finite32 \<lparr>nrows32 = 1, ncols32 = 3, elems32 = [[Fin 1, Fin (- 2), Fin (1 / 2)]]\<rparr>
   \<and> basic_scores32 \<lparr>nrows32 = 1, ncols32 = 3, elems32 = [[Fin 1, Fin (- 2), Fin (1 / 2)]]\<rparr>
     = Inr \<lparr>nrows32 = 1, ncols32 = 1, elems32 = [[Fin (21 / 4)]]\<rparr>
   \<and> all_finite32 \<lparr>nrows32 = 1, ncols32 = 1, elems32 = [[Fin (21 / 4)]]\<rparr>
   \<and> basic_attention32 \<lparr>nrows32 = 1, ncols32 = 3, elems32 = [[Fin 1, Fin (- 2), Fin (1 / 2)]]\<rparr>
     = Inr \<lparr>nrows32 = 1, ncols32 = 3, elems32 = [[Fin 1, Fin (- 2), Fin (1 / 2)]]\<rparr>"
proof -
  have 1: "wf_tensor32 \<lparr>nrows32 = 1, ncols32 = 3, elems32 = [[Fin 1, Fin (- 2), Fin (1 / 2)]]\<rparr>"
    by (simp add: wf_tensor32_def is_f32_def r32)
  have 2: "all_finite32 \<lparr>nrows32 = 1, ncols32 = 3, elems32 = [[Fin 1, Fin (- 2), Fin (1 / 2)]]\<rparr>"
    by (simp add: all_finite32_def is_finite32_def)
  have 3: "basic_scores32 \<lparr>nrows32 = 1, ncols32 = 3, elems32 = [[Fin 1, Fin (- 2), Fin (1 / 2)]]\<rparr>
     = Inr \<lparr>nrows32 = 1, ncols32 = 1, elems32 = [[Fin (21 / 4)]]\<rparr>"
    by (simp add: basic_scores32_def ops32 r32 upt_rec)
  have 4: "all_finite32 \<lparr>nrows32 = 1, ncols32 = 1, elems32 = [[Fin (21 / 4)]]\<rparr>"
    by (simp add: all_finite32_def is_finite32_def)
  show ?thesis
    using basic_attention32_single_row [OF 1 _ 2 3 4] 1 2 3 4 by simp
qed




text \<open>
  Claim C8. For \<open>X = [[1, 0], [0, 1]]\<close>, \<^verbatim>\<open>basic_attention\<close> computes the score
  \<open>S = [[1, 0], [0, 1]]\<close>, the row-wise softmax is within \<open>10\<^sup>-\<^sup>3\<close> of
  \<open>[[0.731, 0.269], [0.269, 0.731]]\<close>, and so is the output \<open>Y\<close>.
\<close>
theorem basic_attention_identity_input:
  "basic_scores \<lparr>nrows = 2, ncols = 2, elems = [[1, 0], [0, 1]]\<rparr>
     = Inr \<lparr>nrows = 2, ncols = 2, elems = [[1, 0], [0, 1]]\<rparr>
   \<and> (\<exists>w. basic_weights \<lparr>nrows = 2, ncols = 2, elems = [[1, 0], [0, 1]]\<rparr> = Inr w
        \<and> within_tol (1 / 1000) w
            \<lparr>nrows = 2, ncols = 2, elems = [[731 / 1000, 269 / 1000], [269 / 1000, 731 / 1000]]\<rparr>)
   \<and> (\<exists>y. basic_attention \<lparr>nrows = 2, ncols = 2, elems = [[1, 0], [0, 1]]\<rparr> = Inr y
        \<and> within_tol (1 / 1000) y
            \<lparr>nrows = 2, ncols = 2, elems = [[731 / 1000, 269 / 1000], [269 / 1000, 731 / 1000]]\<rparr>)"
proof (intro conjI)
  show "basic_scores \<lparr>nrows = 2, ncols = 2, elems = [[1, 0], [0, 1]]\<rparr>
     = Inr \<lparr>nrows = 2, ncols = 2, elems = [[1, 0], [0, 1]]\<rparr>"
    by (simp add: basic_scores_def matmul_def transpose_t_def dot_def upt_rec)
  have tol: "within_tol (1 / 1000)
      \<lparr>nrows = 2, ncols = 2,
        elems = [[exp 1 / (exp 1 + 1), 1 / (exp 1 + 1)], [1 / (exp 1 + 1), exp 1 / (exp 1 + 1)]]\<rparr>
      \<lparr>nrows = 2, ncols = 2, elems = [[731 / 1000, 269 / 1000], [269 / 1000, 731 / 1000]]\<rparr>"
    using softmax_unit_bounds by (simp add: within_tol_def)
  show "\<exists>w. basic_weights \<lparr>nrows = 2, ncols = 2, elems = [[1, 0], [0, 1]]\<rparr> = Inr w
        \<and> within_tol (1 / 1000) w
            \<lparr>nrows = 2, ncols = 2, elems = [[731 / 1000, 269 / 1000], [269 / 1000, 731 / 1000]]\<rparr>"
    using tol basic_weights_eye2 by blast
  show "\<exists>y. basic_attention \<lparr>nrows = 2, ncols = 2, elems = [[1, 0], [0, 1]]\<rparr> = Inr y
        \<and> within_tol (1 / 1000) y
            \<lparr>nrows = 2, ncols = 2, elems = [[731 / 1000, 269 / 1000], [269 / 1000, 731 / 1000]]\<rparr>"
    using tol basic_attention_eye2 by blast
qed

text \<open>
  Claim C4, at an input where the code departs from it. The claim: each row of the
  normalized weight matrix inside \<^verbatim>\<open>basic_attention\<close> and inside \<^verbatim>\<open>qkv_attention\<close> sums
  to 1 and has no negative entry. For \<^verbatim>\<open>basic_attention\<close> this is
  \<open>basic_weights_row_stochastic\<close>. \<^verbatim>\<open>qkv_attention\<close> multiplies the raw score \<^verbatim>\<open>w\<close>
  with \<^verbatim>\<open>v\<close>: at \<open>X = [[1, 0], [-1, 0]]\<close> with identity weights that matrix is
  \<open>[[1, -1], [-1, 1]]\<close>, with negative entries and rows that sum to 0.
\<close>
theorem qkv_weights_not_row_stochastic:
  "qkv_weights (eye 2) (eye 2) \<lparr>nrows = 2, ncols = 2, elems = [[1, 0], [- 1, 0]]\<rparr>
     = Inr \<lparr>nrows = 2, ncols = 2, elems = [[1, - 1], [- 1, 1]]\<rparr>
   \<and> matmul \<lparr>nrows = 2, ncols = 2, elems = [[1, - 1], [- 1, 1]]\<rparr>
        \<lparr>nrows = 2, ncols = 2, elems = [[1, 0], [- 1, 0]]\<rparr>
     = Inr \<lparr>nrows = 2, ncols = 2, elems = [[2, 0], [- 2, 0]]\<rparr>
   \<and> qkv_attention (eye 2) (eye 2) (eye 2) \<lparr>nrows = 2, ncols = 2, elems = [[1, 0], [- 1, 0]]\<rparr>
     = Inr \<lparr>nrows = 2, ncols = 2, elems = [[2, 0], [- 2, 0]]\<rparr>
   \<and> sum_list [1, - 1 :: real] = 0"
  by (simp add: qkv_weights_def qkv_attention_def matmul_def transpose_t_def dot_def eye_def upt_rec)

text \<open>
  Claim C1, at an input where the code departs from it. The claim: \<^verbatim>\<open>qkv_attention\<close>
  computes \<open>Q\<close>, \<open>K\<close>, \<open>V\<close>, the score \<open>S = Q \<cdot> K\<^sup>T\<close>, scales it by \<open>1 / sqrt d\<close>, takes the
  row-wise softmax and returns its product with \<open>V\<close>. The source has neither the scaling
  nor the softmax: with the identity of size 2 for the input and the weights it returns
  the identity, whose entry \<open>(0, 1)\<close> is 0, where the computation of the claim has a
  positive entry.
\<close>
theorem qkv_attention_omits_scaling_and_softmax:
  "qkv_attention (eye 2) (eye 2) (eye 2) (eye 2) = Inr (eye 2)
   \<and> (\<exists>y. spec_qkv_attention (eye 2) (eye 2) (eye 2) (eye 2) = Inr y
        \<and> entry (eye 2) 0 1 = 0 \<and> 0 < entry y 0 1)"
proof -
  have w: "wf_tensor (eye 2)" and n: "ncols (eye 2) = 2" "nrows (eye 2) = 2"
    by (simp_all add: eye_def wf_tensor_def upt_rec)
  have t: "transpose_t (eye 2) = eye 2"
    by (simp add: transpose_t_def eye_def upt_rec)
  have m: "matmul (eye 2) (eye 2) = Inr (eye 2)"
    by (rule matmul_eye [OF w n(1)])
  have 1: "qkv_attention (eye 2) (eye 2) (eye 2) (eye 2) = Inr (eye 2)"
    by (simp add: qkv_attention_def m t)
  define a :: real where "a = 1 / sqrt 2"
  have s: "softmax_t (scale_t a (eye 2))
    = \<lparr>nrows = 2, ncols = 2,
       elems = [[exp a / (exp a + 1), 1 / (exp a + 1)], [1 / (1 + exp a), exp a / (1 + exp a)]]\<rparr>"
    by (simp add: softmax_t_def softmax_row_def scale_t_def eye_def upt_rec)
  have pos: "0 < exp a + 1" by (simp add: add_pos_pos)
  have "spec_qkv_attention (eye 2) (eye 2) (eye 2) (eye 2)
    = matmul (softmax_t (scale_t a (eye 2))) (eye 2)"
    by (simp add: spec_qkv_attention_def m t n a_def)
  also have "\<dots> = Inr (softmax_t (scale_t a (eye 2)))"
    by (rule matmul_eye) (simp_all add: s wf_tensor_def)
  finally have 2: "spec_qkv_attention (eye 2) (eye 2) (eye 2) (eye 2)
    = Inr (softmax_t (scale_t a (eye 2)))" .
  have 3: "0 < entry (softmax_t (scale_t a (eye 2))) 0 1"
    using pos by (simp add: s entry_def)
  have 4: "entry (eye 2) 0 1 = 0"
    by (simp add: eye_def entry_def upt_rec)
  show ?thesis using 1 2 3 4 by simp
qed

text \<open>
  Claim C5 as it is stated fails at the empty input: the claim has both functions fail
  with an \<open>EmptyInput\<close> error when the sequence length is zero. The source has no such
  check, and on a tensor of shape \<open>(0, 2)\<close> both functions return the empty tensor of
  shape \<open>(0, 2)\<close>.
\<close>
theorem empty_input_no_error:
  "basic_attention \<lparr>nrows = 0, ncols = 2, elems = []\<rparr> = Inr \<lparr>nrows = 0, ncols = 2, elems = []\<rparr>
   \<and> qkv_attention (eye 2) (eye 2) (eye 2) \<lparr>nrows = 0, ncols = 2, elems = []\<rparr>
     = Inr \<lparr>nrows = 0, ncols = 2, elems = []\<rparr>"
  by (simp add: basic_attention_def basic_weights_def basic_scores_def softmax_t_def
      qkv_attention_def matmul_def transpose_t_def eye_def)

text \<open>
  Claim C5, amended. On floating-point tensors, \<^verbatim>\<open>basic_attention\<close> raises on no input
  and returns a tensor of the shape of \<open>X\<close>. \<^verbatim>\<open>qkv_attention\<close> fails with the shape error
  exactly when the column count of \<open>X\<close> differs from the row count of \<open>Wq\<close>, \<open>Wk\<close> or
  \<open>Wv\<close>, or \<open>Wq\<close> and \<open>Wk\<close> differ in their column counts; when all of these fit it
  returns a tensor with the rows of \<open>X\<close> and the columns of \<open>Wv\<close>. There is no error for
  the empty input: for sequence length 0, \<^verbatim>\<open>basic_attention\<close> returns the empty tensor of
  shape \<open>(0, d)\<close> and \<^verbatim>\<open>qkv_attention\<close>, when the shapes fit, the empty tensor with the
  columns of \<open>Wv\<close>, which is \<open>(0, d)\<close> for weights of shape \<open>(d, d)\<close>.
\<close>
theorem attention_raises_on_shape_mismatch_only:
  assumes x: "wf_tensor x"
  shows "(\<exists>y. basic_attention x = Inr y \<and> has_shape (nrows x) (ncols x) y)
   \<and> (nrows x = 0 \<longrightarrow> basic_attention x = Inr \<lparr>nrows = 0, ncols = ncols x, elems = []\<rparr>)
   \<and> (qkv_attention wq wk wv x = Inl ShapeMismatch \<longleftrightarrow>
        ncols x \<noteq> nrows wq \<or> ncols x \<noteq> nrows wk \<or> ncols x \<noteq> nrows wv \<or> ncols wq \<noteq> ncols wk)
   \<and> (ncols x = nrows wq \<and> ncols x = nrows wk \<and> ncols x = nrows wv \<and> ncols wq = ncols wk \<longrightarrow>
        (\<exists>y. qkv_attention wq wk wv x = Inr y \<and> nrows y = nrows x \<and> ncols y = ncols wv)
        \<and> (nrows x = 0 \<longrightarrow>
             qkv_attention wq wk wv x = Inr \<lparr>nrows = 0, ncols = ncols wv, elems = []\<rparr>))"
proof (intro conjI impI)
  show "\<exists>y. basic_attention x = Inr y \<and> has_shape (nrows x) (ncols x) y"
    using basic_attention_of_fun [OF x] by (simp add: has_shape_def spec_basic_attention_def)
  show "basic_attention x = Inr \<lparr>nrows = 0, ncols = ncols x, elems = []\<rparr>" if "nrows x = 0"
    using basic_attention_of_fun [OF x] that by (simp add: spec_basic_attention_def of_fun_def)
  show "qkv_attention wq wk wv x = Inl ShapeMismatch \<longleftrightarrow>
        ncols x \<noteq> nrows wq \<or> ncols x \<noteq> nrows wk \<or> ncols x \<noteq> nrows wv \<or> ncols wq \<noteq> ncols wk"
    by (auto simp: qkv_attention_def matmul_def)
next
  assume fit: "ncols x = nrows wq \<and> ncols x = nrows wk \<and> ncols x = nrows wv \<and> ncols wq = ncols wk"
  show "\<exists>y. qkv_attention wq wk wv x = Inr y \<and> nrows y = nrows x \<and> ncols y = ncols wv"
    using fit by (simp add: qkv_attention_def matmul_def)
  show "qkv_attention wq wk wv x = Inr \<lparr>nrows = 0, ncols = ncols wv, elems = []\<rparr>"
    if "nrows x = 0"
  proof -
    have "elems x = []" using x that by (simp add: wf_tensor_def)
    then show ?thesis using fit that by (simp add: qkv_attention_def matmul_def)
  qed
qed

theorem attention_raises_on_shape_mismatch_only_witness:
  "wf_tensor \<lparr>nrows = 1, ncols = 2, elems = [[1, 2]]\<rparr>
   \<and> ncols \<lparr>nrows = 1, ncols = 2, elems = [[1, 2]]\<rparr> \<noteq> nrows (eye 3)
   \<and> qkv_attention (eye 3) (eye 3) (eye 3) \<lparr>nrows = 1, ncols = 2, elems = [[1, 2]]\<rparr>
     = Inl ShapeMismatch
   \<and> (\<exists>y. basic_attention \<lparr>nrows = 1, ncols = 2, elems = [[1, 2]]\<rparr> = Inr y \<and> has_shape 1 2 y)
   \<and> (\<exists>y. qkv_attention (eye 2) (eye 2) (eye 2) \<lparr>nrows = 1, ncols = 2, elems = [[1, 2]]\<rparr> = Inr y
         \<and> nrows y = 1 \<and> ncols y = 2)
   \<and> wf_tensor \<lparr>nrows = 0, ncols = 3, elems = []\<rparr>
   \<and> nrows \<lparr>nrows = 0, ncols = 3, elems = []\<rparr> = 0
   \<and> ncols \<lparr>nrows = 0, ncols = 3, elems = []\<rparr> = nrows (eye 3)
   \<and> basic_attention \<lparr>nrows = 0, ncols = 3, elems = []\<rparr>
     = Inr \<lparr>nrows = 0, ncols = 3, elems = []\<rparr>
   \<and> qkv_attention (eye 3) (eye 3) (eye 3) \<lparr>nrows = 0, ncols = 3, elems = []\<rparr>
     = Inr \<lparr>nrows = 0, ncols = 3, elems = []\<rparr>"
proof -
  have 1: "wf_tensor \<lparr>nrows = 1, ncols = 2, elems = [[1, 2]]\<rparr>"
    and 2: "wf_tensor \<lparr>nrows = 0, ncols = 3, elems = []\<rparr>"
    by (simp_all add: wf_tensor_def)
  show ?thesis
    using attention_raises_on_shape_mismatch_only [OF 1, of "eye 3" "eye 3" "eye 3"]
      attention_raises_on_shape_mismatch_only [OF 1, of "eye 2" "eye 2" "eye 2"]
      attention_raises_on_shape_mismatch_only [OF 2, of "eye 3" "eye 3" "eye 3"] 1 2
    by (simp add: eye_def)
qed

end
